theory Spec2Isabelle
  imports Main "HOL-Library.Word"
begin

unbundle bit_operations_syntax

section \<open>Machine model\<close>

text \<open>
  The target is a 32-bit ARM core: \<open>uint32_t\<close> (\<open>long unsigned int\<close>) is a 32-bit word and
  addresses are 32 bits wide.

  A \<open>uint32_t *\<close> is a 4-byte aligned address. It is represented by the number of the word
  it designates (the byte address divided by four), so that \<open>p++\<close> is \<open>p + 1\<close> and
  wraps around at the top of the address space exactly as the byte address does; pointer
  comparison is the unsigned comparison of the addresses. Memory is the array of all
  \<open>2 ^ 30\<close> words, memory-mapped registers included.
\<close>

type_synonym word32 = "32 word"
type_synonym ptr = "30 word"
type_synonym memory = "ptr \<Rightarrow> word32"

text \<open>The casts \<open>(uint32_t *) x\<close> and \<open>(uint32_t) p\<close> between byte addresses and pointers.\<close>

definition word_ptr :: "word32 \<Rightarrow> ptr" where
  "word_ptr x = ucast (drop_bit 2 x)"

definition addr_of :: "ptr \<Rightarrow> word32" where
  "addr_of p = push_bit 2 (ucast p)"

text \<open>
  Every access to memory, every barrier and every write to a core register made by an
  \<open>asm\<close> statement is logged in program order.
\<close>

datatype event =
    MemRead ptr
  | MemWrite ptr word32
  | ISB
  | DSB
  | MovSP word32
  | BranchLink word32 word32

record machine =
  mem :: memory
  sp :: word32
  lr :: word32
  pc :: word32
  trace :: "event list"

definition load :: "machine \<Rightarrow> ptr \<Rightarrow> word32 \<times> machine" where
  "load s p = (mem s p, s\<lparr>trace := trace s @ [MemRead p]\<rparr>)"

definition store :: "machine \<Rightarrow> ptr \<Rightarrow> word32 \<Rightarrow> machine" where
  "store s p v = s\<lparr>mem := (mem s)(p := v), trace := trace s @ [MemWrite p v]\<rparr>"

section \<open>Memory initialisation primitives\<close>

text \<open>
  \<^verbatim>\<open>
  static void memory_copy(uint32_t *dest, const uint32_t *src, uint32_t *dest_end)
  {
      if (dest == src)
          return;
      while (dest < dest_end)
      {
          *dest++ = *src++;
      }
  }
  \<close>
\<close>

function memory_copy_loop :: "machine \<Rightarrow> ptr \<Rightarrow> ptr \<Rightarrow> ptr \<Rightarrow> machine" where
  "memory_copy_loop s dest src dest_end =
     (if dest < dest_end
      then (let (v, s') = load s src
            in memory_copy_loop (store s' dest v) (dest + 1) (src + 1) dest_end)
      else s)"
  by pat_completeness auto
termination
  by (relation "measure (\<lambda>(s, dest, src, dest_end). unat dest_end - unat dest)")
     (simp, unat_arith)

definition memory_copy :: "machine \<Rightarrow> ptr \<Rightarrow> ptr \<Rightarrow> ptr \<Rightarrow> machine" where
  "memory_copy s dest src dest_end =
     (if dest = src then s else memory_copy_loop s dest src dest_end)"

text \<open>
  \<^verbatim>\<open>
  static void memory_clear(uint32_t *dest, uint32_t *dest_end)
  {
      while (dest < dest_end)
      {
          *dest++ = 0;
      }
  }
  \<close>
\<close>

function memory_clear :: "machine \<Rightarrow> ptr \<Rightarrow> ptr \<Rightarrow> machine" where
  "memory_clear s dest dest_end =
     (if dest < dest_end
      then memory_clear (store s dest 0) (dest + 1) dest_end
      else s)"
  by pat_completeness auto
termination
  by (relation "measure (\<lambda>(s, dest, dest_end). unat dest_end - unat dest)")
     (simp, unat_arith)

declare memory_copy_loop.simps [simp del]
declare memory_clear.simps [simp del]

section \<open>Linker symbols\<close>

text \<open>
  The addresses the link step provides. The bounds handed to \<open>memory_copy\<close> and
  \<open>memory_clear\<close> are pointers; the symbols that the code only casts to \<open>uint32_t\<close> are
  kept as the 32-bit value of the cast. \<open>irq_table\<close> is the address of the array
  \<open>uint32_t irq_table[256 + 16]\<close>, \<open>main\<close> and \<open>startup_addr\<close> are the addresses of the
  two functions, \<open>BootData_addr\<close> and \<open>ImageVectorTable_addr\<close> those of the two constant
  arrays, and \<open>bl_return\<close> is the address of the instruction that follows \<open>bl main\<close> (the
  end of the body of \<open>startup\<close>, which is \<open>naked\<close> and has no epilogue).
\<close>

record layout =
  stextload :: ptr
  stext :: ptr
  etext :: ptr
  sdataload :: ptr
  sdata :: ptr
  edata :: ptr
  sbss :: ptr
  ebss :: ptr
  flexram_bank_config :: word32
  estack :: word32
  flashimagelen :: word32
  irq_table :: ptr
  main :: word32
  bl_return :: word32
  startup_addr :: word32
  BootData_addr :: word32
  ImageVectorTable_addr :: word32

section \<open>The startup routine\<close>

text \<open>\<^verbatim>\<open>#define mmio32(x)   (*(volatile unsigned long *)(x))\<close>, read and written.\<close>

definition mmio32_read :: "machine \<Rightarrow> word32 \<Rightarrow> word32 \<times> machine" where
  "mmio32_read s x = load s (word_ptr x)"

definition mmio32_write :: "machine \<Rightarrow> word32 \<Rightarrow> word32 \<Rightarrow> machine" where
  "mmio32_write s x v = store s (word_ptr x) v"

text \<open>
  The \<open>asm\<close> statements: the two barriers, \<open>mov sp, r\<close> and \<open>bl main\<close>. Branch with link
  writes the return address to the link register and the target to the program counter;
  it does not touch the stack.
\<close>

definition isb :: "machine \<Rightarrow> machine" where
  "isb s = s\<lparr>trace := trace s @ [ISB]\<rparr>"

definition dsb :: "machine \<Rightarrow> machine" where
  "dsb s = s\<lparr>trace := trace s @ [DSB]\<rparr>"

definition mov_sp :: "machine \<Rightarrow> word32 \<Rightarrow> machine" where
  "mov_sp s v = s\<lparr>sp := v, trace := trace s @ [MovSP v]\<rparr>"

definition bl :: "machine \<Rightarrow> word32 \<Rightarrow> word32 \<Rightarrow> machine" where
  "bl s target ret = s\<lparr>lr := ret, pc := target, trace := trace s @ [BranchLink target ret]\<rparr>"

text \<open>
  The body of \<open>startup\<close>, one definition for each of its commented blocks, in the order of
  the source.
  \<^verbatim>\<open>
    // FlexRAM Bank configuration
    mmio32(0x400AC000 + 0x44) = (uint32_t)&_flexram_bank_config;
    mmio32(0x400AC000 + 0x40) = 0x00000007;
    mmio32(0x400AC000 + 0x38) = 0x00AA0000;
  \<close>
\<close>

definition flexram_bank_configuration :: "layout \<Rightarrow> machine \<Rightarrow> machine" where
  "flexram_bank_configuration L s =
     (let s1 = mmio32_write s (0x400AC000 + 0x44) (flexram_bank_config L);
          s2 = mmio32_write s1 (0x400AC000 + 0x40) 0x00000007
      in mmio32_write s2 (0x400AC000 + 0x38) 0x00AA0000)"

text \<open>
  \<^verbatim>\<open>
    // Enable FPU
    mmio32(0xE000ED88) = mmio32(0xE000ED88) | (0xFF<<20);
  \<close>
\<close>

definition enable_fpu :: "machine \<Rightarrow> machine" where
  "enable_fpu s =
     (let (v, s1) = mmio32_read s 0xE000ED88
      in mmio32_write s1 0xE000ED88 (v OR push_bit 20 0xFF))"

text \<open>
  \<^verbatim>\<open>
    __asm__ volatile("isb");
    __asm__ volatile("dsb");
  \<close>
\<close>

definition barriers :: "machine \<Rightarrow> machine" where
  "barriers s = dsb (isb s)"

text \<open>
  \<^verbatim>\<open>
    // Move stack pointer
    __asm__ volatile("mov sp, %0" : : "r" ((uint32_t)&_estack) : );
  \<close>
\<close>

definition move_stack_pointer :: "layout \<Rightarrow> machine \<Rightarrow> machine" where
  "move_stack_pointer L s = mov_sp s (estack L)"

text \<open>
  \<^verbatim>\<open>
    // Initialize memory
    memory_copy(&_stext, &_stextload, &_etext);
    memory_copy(&_sdata, &_sdataload, &_edata);
    memory_clear(&_sbss, &_ebss);
  \<close>
\<close>

definition initialize_memory :: "layout \<Rightarrow> machine \<Rightarrow> machine" where
  "initialize_memory L s =
     (let s1 = memory_copy s (stext L) (stextload L) (etext L);
          s2 = memory_copy s1 (sdata L) (sdataload L) (edata L)
      in memory_clear s2 (sbss L) (ebss L))"

text \<open>
  \<^verbatim>\<open>
    // Assign stack pointer
    irq_table[0] = (uint32_t)&_estack;
  \<close>
\<close>

definition assign_stack_pointer :: "layout \<Rightarrow> machine \<Rightarrow> machine" where
  "assign_stack_pointer L s = store s (irq_table L + 0) (estack L)"

text \<open>
  \<^verbatim>\<open>
    // Setup the NVIC
    uint32_t addr = (uint32_t)&irq_table;
    mmio32(0xE000ED08) = addr;
  \<close>
\<close>

definition setup_nvic :: "layout \<Rightarrow> machine \<Rightarrow> machine" where
  "setup_nvic L s = (let addr = addr_of (irq_table L) in mmio32_write s 0xE000ED08 addr)"

text \<open>
  \<^verbatim>\<open>
    // Branch to main
    __asm__ volatile("bl main");
  \<close>
\<close>

definition branch_to_main :: "layout \<Rightarrow> machine \<Rightarrow> machine" where
  "branch_to_main L s = bl s (main L) (bl_return L)"

definition startup :: "layout \<Rightarrow> machine \<Rightarrow> machine" where
  "startup L s =
     (let s1 = flexram_bank_configuration L s;
          s2 = enable_fpu s1;
          s3 = barriers s2;
          s4 = move_stack_pointer L s3;
          s5 = initialize_memory L s4;
          s6 = assign_stack_pointer L s5;
          s7 = setup_nvic L s6
      in branch_to_main L s7)"

section \<open>Boot descriptor tables\<close>

definition BootData :: "layout \<Rightarrow> word32 list" where
  "BootData L = [0x60000000, flashimagelen L, 0]"

definition ImageVectorTable :: "layout \<Rightarrow> word32 list" where
  "ImageVectorTable L =
     [0x402000D1,
      startup_addr L,
      0,
      0,
      BootData_addr L,
      ImageVectorTable_addr L,
      0,
      0]"

definition FlexSPI_NOR_Config :: "word32 list" where
  "FlexSPI_NOR_Config =
    [
     0x42464346, 0x56010000, 0, 0x00020101,
     0x00000000, 0, 0, 0x00000000,
     0, 0, 0, 0,
     0, 0, 0, 0,
     0x00000000, 0x00030401, 0, 0,
     0x00200000, 0, 0, 0,
     0, 0, 0, 0,
     0, 0, 0, 0x00000000,
     0x0A1804EB, 0x26043206, 0, 0,
     0x24040405, 0, 0, 0,
     0, 0, 0, 0,
     0x00000406, 0, 0, 0,
     0, 0, 0, 0,
     0x08180420, 0, 0, 0,
     0, 0, 0, 0,
     0, 0, 0, 0,
     0x081804D8, 0, 0, 0,
     0x08180402, 0x00002004, 0, 0,
     0, 0, 0, 0,
     0x00000460, 0, 0, 0,
     0, 0, 0, 0,
     0, 0, 0, 0,
     0, 0, 0, 0,
     0, 0, 0, 0,
     0, 0, 0, 0,
     0, 0, 0, 0,
     0, 0, 0, 0,
     0, 0, 0, 0,
     256, 4096, 1, 0,
     0x00010000, 0, 0, 0,
     0, 0, 0, 0,
     0, 0, 0, 0
    ]"

text \<open>The word of a table at a byte offset that is a multiple of four.\<close>

definition word_at_offset :: "word32 list \<Rightarrow> nat \<Rightarrow> word32" where
  "word_at_offset tbl off = tbl ! (off div 4)"

section \<open>Regions, events and example inputs\<close>

text \<open>The events that are memory accesses.\<close>

definition is_access :: "event \<Rightarrow> bool" where
  "is_access e = (case e of MemRead _ \<Rightarrow> True | MemWrite _ _ \<Rightarrow> True | _ \<Rightarrow> False)"

text \<open>
  The number of words of the half-open range \<open>[dst, dstEnd)\<close>; zero when the range is
  empty or inverted. The word at offset \<open>i\<close> of the range is \<open>dst + of_nat i\<close>.
\<close>

definition words :: "ptr \<Rightarrow> ptr \<Rightarrow> nat" where
  "words dst dstEnd = unat dstEnd - unat dst"

text \<open>A machine at reset whose memory holds a different value in every word.\<close>

definition reset_machine :: machine where
  "reset_machine =
     \<lparr>mem = (\<lambda>p. 0xA5000000 + ucast p), sp = 0, lr = 0, pc = 0, trace = []\<rparr>"

text \<open>The events logged between a state and a later one.\<close>

definition events_since :: "machine \<Rightarrow> machine \<Rightarrow> event list" where
  "events_since s s' = drop (length (trace s)) (trace s')"

text \<open>
  A block of \<open>n\<close> words at \<open>a\<close> fits when it does not run past the top of the address
  space; two blocks are apart when one of them is empty or they do not overlap.
\<close>

definition fits :: "ptr \<Rightarrow> nat \<Rightarrow> bool" where
  "fits a n \<longleftrightarrow> unat a + n \<le> 2 ^ 30"

definition apart :: "ptr \<Rightarrow> nat \<Rightarrow> ptr \<Rightarrow> nat \<Rightarrow> bool" where
  "apart a n b k \<longleftrightarrow> n = 0 \<or> k = 0 \<or> unat a + n \<le> unat b \<or> unat b + k \<le> unat a"

text \<open>
  The registers \<open>startup\<close> writes before it initialises memory, and the layouts under
  which the initialisation does what the link step intends: the three execution regions
  are pairwise apart and contain neither \<open>irq_table[0]\<close> nor the register \<open>0xE000ED08\<close>;
  each load image fits and is at the address of its execution region or apart from it;
  the load image of the data is apart from the execution region of the text; no load image
  contains a register written early.
\<close>

definition early_registers :: "ptr list" where
  "early_registers =
     [word_ptr (0x400AC000 + 0x44), word_ptr (0x400AC000 + 0x40), word_ptr (0x400AC000 + 0x38),
      word_ptr 0xE000ED88]"

definition layout_ok :: "layout \<Rightarrow> bool" where
  "layout_ok L \<longleftrightarrow>
     (let nT = words (stext L) (etext L);
          nD = words (sdata L) (edata L);
          nB = words (sbss L) (ebss L)
      in apart (stext L) nT (sdata L) nD
       \<and> apart (stext L) nT (sbss L) nB
       \<and> apart (sdata L) nD (sbss L) nB
       \<and> list_all (\<lambda>p. apart p 1 (stext L) nT \<and> apart p 1 (sdata L) nD \<and> apart p 1 (sbss L) nB)
            [irq_table L, word_ptr 0xE000ED08]
       \<and> fits (stextload L) nT
       \<and> fits (sdataload L) nD
       \<and> (stext L = stextload L \<or> apart (stext L) nT (stextload L) nT)
       \<and> (sdata L = sdataload L \<or> apart (sdata L) nD (sdataload L) nD)
       \<and> apart (stext L) nT (sdataload L) nD
       \<and> list_all (\<lambda>r. apart r 1 (stextload L) nT \<and> apart r 1 (sdataload L) nD)
            early_registers)"

text \<open>The first four blocks of \<open>startup\<close>, up to the relocation of the stack pointer.\<close>

definition before_memory :: "layout \<Rightarrow> machine \<Rightarrow> machine" where
  "before_memory L s = move_stack_pointer L (barriers (enable_fpu (flexram_bank_configuration L s)))"

text \<open>
  A layout in the style of the Teensy 4 link script, with two words of text, of data and
  of bss, and a variant whose text is loaded one word below its execution address.
\<close>

definition teensy_layout :: layout where
  "teensy_layout =
     \<lparr>stextload = word_ptr 0x60002000,
      stext = word_ptr 0x00000000,
      etext = word_ptr 0x00000008,
      sdataload = word_ptr 0x60002008,
      sdata = word_ptr 0x20000800,
      edata = word_ptr 0x20000808,
      sbss = word_ptr 0x20000808,
      ebss = word_ptr 0x20000810,
      flexram_bank_config = 0xAAAAAAAB,
      estack = 0x20078000,
      flashimagelen = 0x00002400,
      irq_table = word_ptr 0x20000000,
      main = 0x00000005,
      bl_return = 0x60001461,
      startup_addr = 0x60001401,
      BootData_addr = 0x60001020,
      ImageVectorTable_addr = 0x60001000\<rparr>"

definition overlapping_layout :: layout where
  "overlapping_layout =
     teensy_layout\<lparr>stextload := word_ptr 0x20001000,
                   stext := word_ptr 0x20001004,
                   etext := word_ptr 0x2000100C\<rparr>"

section \<open>Pointers and byte addresses\<close>

text \<open>
  The representation of pointers by word numbers agrees with byte addresses: the address
  of a pointer is four times its word number, the cast of that address gives the pointer
  back, every address that is a multiple of four is the address of a pointer, pointers
  compare as their addresses do, and \<open>p + 1\<close> is the address plus four, modulo
  \<open>2 ^ 32\<close>.
\<close>

lemma unat_addr_of: "unat (addr_of p) = 4 * unat p"
proof -
  have "unat p < 2 ^ 30" using unsigned_less[of p] by simp
  then have b: "4 * unat p < 2 ^ 32" by simp
  have "unat (ucast p :: word32) = unat p"
    using \<open>unat p < 2 ^ 30\<close> by (simp add: unsigned_ucast_eq take_bit_nat_eq_self)
  then show ?thesis
    using b by (simp add: addr_of_def push_bit_eq_mult unat_word_ariths)
qed

lemma unat_word_ptr: "unat (word_ptr x) = unat x div 4"
proof -
  have "unat x < 2 ^ 32" using unsigned_less[of x] by simp
  then have "unat x div 4 < 2 ^ 30" by simp
  then show ?thesis
    by (simp add: word_ptr_def unsigned_ucast_eq drop_bit_eq_div unat_div
        take_bit_nat_eq_self)
qed

lemma word_ptr_addr_of: "word_ptr (addr_of p) = p"
  by (rule word_unat_eq_iff[THEN iffD2]) (simp add: unat_word_ptr unat_addr_of)

lemma addr_of_word_ptr: "4 dvd unat x \<Longrightarrow> addr_of (word_ptr x) = x"
  by (rule word_unat_eq_iff[THEN iffD2]) (simp add: unat_word_ptr unat_addr_of)

lemma addr_of_less: "addr_of p < addr_of q \<longleftrightarrow> p < q"
  by (simp add: word_less_nat_alt unat_addr_of)

lemma addr_of_inc: "addr_of (p + 1) = addr_of p + 4"
proof -
  have "unat (addr_of (p + 1)) = 4 * ((unat p + 1) mod 2 ^ 30)"
    by (simp add: unat_addr_of unat_word_ariths)
  also have "\<dots> = (4 * (unat p + 1)) mod (4 * 2 ^ 30)"
    by (rule mult_mod_right)
  also have "4 * (unat p + 1) = 4 * unat p + 4"
    by simp
  also have "(4 * unat p + 4) mod (4 * 2 ^ 30) = unat (addr_of p + 4)"
    by (simp add: unat_addr_of unat_word_ariths)
  finally show ?thesis by (simp add: word_unat_eq_iff)
qed

section \<open>Properties of the memory initialisation primitives\<close>

lemma inc_unat: "(dest::ptr) < dest_end \<Longrightarrow> unat (dest + 1) = Suc (unat dest)"
  by unat_arith

lemma words_step: "(dest::ptr) < dest_end \<Longrightarrow> words dest dest_end = Suc (words (dest + 1) dest_end)"
  unfolding words_def by unat_arith

lemma words_zero: "\<not> (dest::ptr) < dest_end \<Longrightarrow> words dest dest_end = 0"
  unfolding words_def by unat_arith

lemma in_range_iff:
  "(dst \<le> a \<and> a < dstEnd) \<longleftrightarrow> (\<exists>i < words dst dstEnd. a = dst + of_nat i)"
proof
  assume h: "dst \<le> a \<and> a < dstEnd"
  then have "unat a - unat dst < words dst dstEnd"
    unfolding words_def by unat_arith
  moreover have "a = dst + of_nat (unat a - unat dst)"
    using h by (simp add: word_le_nat_alt)
  ultimately show "\<exists>i < words dst dstEnd. a = dst + of_nat i" by blast
next
  assume "\<exists>i < words dst dstEnd. a = dst + of_nat i"
  then obtain i where i: "i < words dst dstEnd" "a = dst + of_nat i" by blast
  from i(1) have b: "unat dst + i < unat dstEnd" by (simp add: words_def)
  have "unat dstEnd < 2 ^ 30" using unsigned_less[of dstEnd] by simp
  with b have "unat (dst + of_nat i) = unat dst + i"
    by (simp add: unat_word_ariths unat_of_nat)
  with b i(2) show "dst \<le> a \<and> a < dstEnd"
    by (simp add: word_le_nat_alt word_less_nat_alt)
qed

subsection \<open>memory_clear\<close>

lemma memory_clear_frame:
  "\<not> (dest \<le> a \<and> a < dest_end) \<Longrightarrow> mem (memory_clear s dest dest_end) a = mem s a"
proof (induction s dest dest_end rule: memory_clear.induct)
  case (1 s dest dest_end)
  show ?case
  proof (cases "dest < dest_end")
    case True
    from True "1.prems" have ne: "a \<noteq> dest" by auto
    from True "1.prems" have "\<not> (dest + 1 \<le> a \<and> a < dest_end)" by unat_arith
    with 1 True ne show ?thesis by (simp add: memory_clear.simps[of s dest] store_def)
  next
    case False
    then show ?thesis by (simp add: memory_clear.simps[of s dest])
  qed
qed

lemma memory_clear_zero:
  "dest \<le> a \<Longrightarrow> a < dest_end \<Longrightarrow> mem (memory_clear s dest dest_end) a = 0"
proof (induction s dest dest_end rule: memory_clear.induct)
  case (1 s dest dest_end)
  from "1.prems" have lt: "dest < dest_end" by simp
  show ?case
  proof (cases "a = dest")
    case True
    from lt have "\<not> (dest + 1 \<le> dest \<and> dest < dest_end)" by unat_arith
    then have "mem (memory_clear (store s dest 0) (dest + 1) dest_end) dest = mem (store s dest 0) dest"
      by (rule memory_clear_frame)
    with lt True show ?thesis by (simp add: memory_clear.simps[of s dest] store_def)
  next
    case False
    with "1.prems" have "dest + 1 \<le> a" by unat_arith
    with 1 lt show ?thesis by (simp add: memory_clear.simps[of s dest])
  qed
qed

lemma memory_clear_regs:
  "sp (memory_clear s dest dest_end) = sp s \<and> lr (memory_clear s dest dest_end) = lr s
   \<and> pc (memory_clear s dest dest_end) = pc s"
proof (induction s dest dest_end rule: memory_clear.induct)
  case (1 s dest dest_end)
  then show ?case by (simp add: memory_clear.simps[of s dest] store_def)
qed

lemma memory_clear_trace:
  "trace (memory_clear s dest dest_end) =
     trace s @ map (\<lambda>i. MemWrite (dest + of_nat i) 0) [0 ..< words dest dest_end]"
proof (induction s dest dest_end rule: memory_clear.induct)
  case (1 s dest dest_end)
  show ?case
  proof (cases "dest < dest_end")
    case True
    have "map (\<lambda>i. MemWrite (dest + of_nat i) 0) [0 ..< Suc (words (dest + 1) dest_end)]
        = MemWrite dest 0 # map (\<lambda>i. MemWrite (dest + 1 + of_nat i) 0) [0 ..< words (dest + 1) dest_end]"
      by (simp add: upt_conv_Cons map_Suc_upt[symmetric] add.assoc del: upt_Suc)
    with 1 True show ?thesis
      by (simp add: memory_clear.simps[of s dest] store_def words_step[OF True])
  next
    case False
    then show ?thesis by (simp add: memory_clear.simps[of s dest] words_zero)
  qed
qed

subsection \<open>memory_copy\<close>

lemma memory_copy_loop_frame:
  "\<not> (dest \<le> a \<and> a < dest_end) \<Longrightarrow> mem (memory_copy_loop s dest src dest_end) a = mem s a"
proof (induction s dest src dest_end rule: memory_copy_loop.induct)
  case (1 s dest src dest_end)
  show ?case
  proof (cases "dest < dest_end")
    case True
    from True "1.prems" have ne: "a \<noteq> dest" by auto
    from True "1.prems" have "\<not> (dest + 1 \<le> a \<and> a < dest_end)" by unat_arith
    with 1 True ne show ?thesis
      by (simp add: memory_copy_loop.simps[of s dest] store_def load_def)
  next
    case False
    then show ?thesis by (simp add: memory_copy_loop.simps[of s dest])
  qed
qed

lemma memory_copy_loop_regs:
  "sp (memory_copy_loop s dest src dest_end) = sp s \<and> lr (memory_copy_loop s dest src dest_end) = lr s
   \<and> pc (memory_copy_loop s dest src dest_end) = pc s"
proof (induction s dest src dest_end rule: memory_copy_loop.induct)
  case (1 s dest src dest_end)
  then show ?case by (simp add: memory_copy_loop.simps[of s dest] store_def load_def)
qed

lemma memory_copy_loop_trace:
  "\<exists>es. trace (memory_copy_loop s dest src dest_end) = trace s @ es \<and> list_all is_access es
     \<and> length es = 2 * words dest dest_end"
proof (induction s dest src dest_end rule: memory_copy_loop.induct)
  case (1 s dest src dest_end)
  show ?case
  proof (cases "dest < dest_end")
    case True
    let ?s1 = "store (snd (load s src)) dest (fst (load s src))"
    have "\<exists>es. trace (memory_copy_loop ?s1 (dest + 1) (src + 1) dest_end) = trace ?s1 @ es
            \<and> list_all is_access es \<and> length es = 2 * words (dest + 1) dest_end"
      using "1.IH"[OF True] by (simp add: load_def)
    then obtain es where es:
      "trace (memory_copy_loop ?s1 (dest + 1) (src + 1) dest_end) = trace ?s1 @ es"
      "list_all is_access es" "length es = 2 * words (dest + 1) dest_end"
      by blast
    have "trace ?s1 = trace s @ [MemRead src, MemWrite dest (mem s src)]"
      by (simp add: store_def load_def)
    with es True have "trace (memory_copy_loop s dest src dest_end)
         = trace s @ ([MemRead src, MemWrite dest (mem s src)] @ es)"
      by (simp add: memory_copy_loop.simps[of s dest] load_def)
    moreover have "list_all is_access ([MemRead src, MemWrite dest (mem s src)] @ es)"
      using es(2) by (simp add: is_access_def)
    moreover have "length ([MemRead src, MemWrite dest (mem s src)] @ es) = 2 * words dest dest_end"
      using es(3) by (simp add: words_step[OF True])
    ultimately show ?thesis by blast
  next
    case False
    then show ?thesis by (simp add: memory_copy_loop.simps[of s dest] words_zero)
  qed
qed

lemma memory_copy_loop_content:
  assumes "\<forall>i j. i < j \<and> j < words dest dest_end \<longrightarrow> src + of_nat j \<noteq> dest + of_nat i"
    and "i < words dest dest_end"
  shows "mem (memory_copy_loop s dest src dest_end) (dest + of_nat i) = mem s (src + of_nat i)"
  using assms
proof (induction s dest src dest_end arbitrary: i rule: memory_copy_loop.induct)
  case (1 s dest src dest_end)
  from "1.prems"(2) have lt: "dest < dest_end"
    using words_zero[of dest dest_end] by (cases "dest < dest_end") auto
  let ?s1 = "store (snd (load s src)) dest (fst (load s src))"
  have unf: "memory_copy_loop s dest src dest_end = memory_copy_loop ?s1 (dest + 1) (src + 1) dest_end"
    using lt by (simp add: memory_copy_loop.simps[of s dest] load_def)
  have m1: "\<And>x. mem ?s1 x = (if x = dest then mem s src else mem s x)"
    by (simp add: store_def load_def)
  show ?case
  proof (cases i)
    case 0
    from lt have "\<not> (dest + 1 \<le> dest \<and> dest < dest_end)" by unat_arith
    then have "mem (memory_copy_loop ?s1 (dest + 1) (src + 1) dest_end) dest = mem ?s1 dest"
      by (rule memory_copy_loop_frame)
    with 0 unf m1 show ?thesis by simp
  next
    case (Suc k)
    from "1.prems"(2) Suc have k: "k < words (dest + 1) dest_end"
      by (simp add: words_step[OF lt])
    have sep: "\<forall>i j. i < j \<and> j < words (dest + 1) dest_end \<longrightarrow> src + 1 + of_nat j \<noteq> dest + 1 + of_nat i"
    proof (intro allI impI)
      fix i j assume "i < j \<and> j < words (dest + 1) dest_end"
      then have "Suc i < Suc j \<and> Suc j < words dest dest_end" by (simp add: words_step[OF lt])
      with "1.prems"(1) have "src + of_nat (Suc j) \<noteq> dest + of_nat (Suc i)" by blast
      then show "src + 1 + of_nat j \<noteq> dest + 1 + of_nat i" by (simp add: add.assoc)
    qed
    have "mem (memory_copy_loop ?s1 (dest + 1) (src + 1) dest_end) (dest + 1 + of_nat k)
          = mem ?s1 (src + 1 + of_nat k)"
      using "1.IH"[OF lt _ _ sep k] by (simp add: load_def)
    moreover have "src + of_nat (Suc k) \<noteq> dest + of_nat 0"
      using "1.prems" Suc by blast
    ultimately show ?thesis using unf m1 Suc by (simp add: add.assoc)
  qed
qed

lemma memory_copy_frame:
  "\<not> (dst \<le> a \<and> a < dstEnd) \<Longrightarrow> mem (memory_copy s dst src dstEnd) a = mem s a"
  by (simp add: memory_copy_def memory_copy_loop_frame)

lemma memory_copy_regs:
  "sp (memory_copy s dst src dstEnd) = sp s \<and> lr (memory_copy s dst src dstEnd) = lr s
   \<and> pc (memory_copy s dst src dstEnd) = pc s"
  by (simp add: memory_copy_def memory_copy_loop_regs)

lemma memory_copy_trace:
  "\<exists>es. trace (memory_copy s dst src dstEnd) = trace s @ es \<and> list_all is_access es
     \<and> length es = (if dst = src then 0 else 2 * words dst dstEnd)"
  using memory_copy_loop_trace[of s dst src dstEnd] by (simp add: memory_copy_def)

lemma memory_copy_content:
  assumes "\<forall>i j. i < j \<and> j < words dst dstEnd \<longrightarrow> src + of_nat j \<noteq> dst + of_nat i"
    and "i < words dst dstEnd"
  shows "mem (memory_copy s dst src dstEnd) (dst + of_nat i) = mem s (src + of_nat i)"
  using memory_copy_loop_content[OF assms] by (simp add: memory_copy_def)

lemma memory_copy_loop_empty: "\<not> dst < dstEnd \<Longrightarrow> memory_copy_loop s dst src dstEnd = s"
  by (simp add: memory_copy_loop.simps[of s dst])

lemma memory_clear_empty: "\<not> dst < dstEnd \<Longrightarrow> memory_clear s dst dstEnd = s"
  by (simp add: memory_clear.simps[of s dst])

section \<open>Claims about the primitives\<close>

text \<open>
  At the overlapping input below (destination one word above the source, two words
  copied) the second word written is the first word of the source, not the second: the
  loop copies forwards and has already overwritten the word it reads.
\<close>

theorem memory_copy_overlap_counterexample:
  "word_ptr 0x20000004 \<noteq> word_ptr 0x20000000
   \<and> word_ptr 0x20000004 \<le> word_ptr 0x2000000C
   \<and> word_ptr 0x20000004 + 1 < word_ptr 0x2000000C
   \<and> mem (memory_copy reset_machine (word_ptr 0x20000004) (word_ptr 0x20000000)
            (word_ptr 0x2000000C)) (word_ptr 0x20000004 + 1)
      \<noteq> mem reset_machine (word_ptr 0x20000000 + 1)"
  by (simp add: word_ptr_def memory_copy_def memory_copy_loop.simps load_def store_def
      reset_machine_def)

text \<open>
  Claim C3, as amended. For every \<open>dst\<close>, \<open>src\<close>, \<open>dstEnd\<close> with \<open>dst \<noteq> src\<close> and
  \<open>dst \<le> dstEnd\<close> such that no source word is also a destination word of a smaller offset
  (so that no source word is overwritten before it is read; in particular when the two
  ranges do not overlap), after \<open>memory_copy(dst, src, dstEnd)\<close> every word at offset \<open>i\<close>
  of \<open>[dst, dstEnd)\<close> equals the value the word at \<open>src + i\<close> held before the call.
\<close>

theorem memory_copy_words:
  assumes "dst \<noteq> src" and "dst \<le> dstEnd"
    and "\<forall>i j. i < j \<and> j < words dst dstEnd \<longrightarrow> src + of_nat j \<noteq> dst + of_nat i"
  shows "\<forall>i < words dst dstEnd.
           mem (memory_copy s dst src dstEnd) (dst + of_nat i) = mem s (src + of_nat i)"
  using assms(3) by (simp add: memory_copy_content)

theorem memory_copy_words_witness:
  "word_ptr 0x20000000 \<noteq> word_ptr 0x60001000
   \<and> word_ptr 0x20000000 \<le> word_ptr 0x20000008
   \<and> words (word_ptr 0x20000000) (word_ptr 0x20000008) = 2
   \<and> mem (memory_copy reset_machine (word_ptr 0x20000000) (word_ptr 0x60001000)
            (word_ptr 0x20000008)) (word_ptr 0x20000000 + 1)
      = mem reset_machine (word_ptr 0x60001000 + 1)"
proof -
  have ne: "word_ptr 0x20000000 \<noteq> word_ptr 0x60001000" by (simp add: word_ptr_def)
  have le: "word_ptr 0x20000000 \<le> word_ptr 0x20000008" by (simp add: word_ptr_def)
  have n: "words (word_ptr 0x20000000) (word_ptr 0x20000008) = 2"
    by (simp add: words_def word_ptr_def)
  have sep: "\<forall>i j. i < j \<and> j < words (word_ptr 0x20000000) (word_ptr 0x20000008)
      \<longrightarrow> word_ptr 0x60001000 + of_nat j \<noteq> word_ptr 0x20000000 + of_nat i"
  proof (intro allI impI)
    fix i j :: nat
    assume "i < j \<and> j < words (word_ptr 0x20000000) (word_ptr 0x20000008)"
    with n have "i = 0 \<and> j = 1" by auto
    then show "word_ptr 0x60001000 + of_nat j \<noteq> word_ptr 0x20000000 + of_nat i"
      by (simp add: word_ptr_def)
  qed
  have "(1::nat) < words (word_ptr 0x20000000) (word_ptr 0x20000008)" using n by simp
  with memory_copy_words[OF ne le sep, of reset_machine]
  have "mem (memory_copy reset_machine (word_ptr 0x20000000) (word_ptr 0x60001000)
            (word_ptr 0x20000008)) (word_ptr 0x20000000 + of_nat 1)
      = mem reset_machine (word_ptr 0x60001000 + of_nat 1)" by blast
  with ne le n show ?thesis by simp
qed

text \<open>
  Claim C4. For every \<open>dst\<close> and \<open>dstEnd\<close>, \<open>memory_copy(dst, dst, dstEnd)\<close> leaves the
  whole machine state unchanged, its access log included: no word is read or written.
\<close>

theorem memory_copy_same_address: "memory_copy s dst dst dstEnd = s"
  by (simp add: memory_copy_def)

text \<open>
  Claim C5. For every \<open>dst \<le> dstEnd\<close>, after \<open>memory_clear(dst, dstEnd)\<close> every word of
  \<open>[dst, dstEnd)\<close> is zero.
\<close>

theorem memory_clear_zeroes:
  "dst \<le> dstEnd \<Longrightarrow> \<forall>a. dst \<le> a \<and> a < dstEnd \<longrightarrow> mem (memory_clear s dst dstEnd) a = 0"
  by (simp add: memory_clear_zero)

theorem memory_clear_zeroes_witness:
  "word_ptr 0x20001000 \<le> word_ptr 0x20001010
   \<and> word_ptr 0x20001000 \<le> word_ptr 0x2000100C \<and> word_ptr 0x2000100C < word_ptr 0x20001010
   \<and> mem reset_machine (word_ptr 0x2000100C) \<noteq> 0
   \<and> mem (memory_clear reset_machine (word_ptr 0x20001000) (word_ptr 0x20001010))
        (word_ptr 0x2000100C) = 0"
proof -
  have le: "word_ptr 0x20001000 \<le> word_ptr 0x20001010" by (simp add: word_ptr_def)
  have a: "word_ptr 0x20001000 \<le> word_ptr 0x2000100C \<and> word_ptr 0x2000100C < word_ptr 0x20001010"
    by (simp add: word_ptr_def)
  have b: "mem reset_machine (word_ptr 0x2000100C) \<noteq> 0"
    by (simp add: word_ptr_def reset_machine_def)
  from memory_clear_zeroes[OF le, of reset_machine] a
  have "mem (memory_clear reset_machine (word_ptr 0x20001000) (word_ptr 0x20001010))
        (word_ptr 0x2000100C) = 0" by blast
  with le a b show ?thesis by blast
qed

text \<open>
  Claim C6. When \<open>dst = dstEnd\<close>, \<open>memory_copy(dst, src, dstEnd)\<close> with \<open>dst \<noteq> src\<close> and
  \<open>memory_clear(dst, dstEnd)\<close> return the machine state they were given: memory is
  unchanged and the access log has no new entry, so nothing was written anywhere.
\<close>

theorem empty_range_no_write:
  "(dst \<noteq> src \<longrightarrow> memory_copy s dst src dst = s) \<and> memory_clear s dst dst = s"
  by (simp add: memory_copy_def memory_copy_loop_empty memory_clear_empty)

theorem empty_range_no_write_witness:
  "word_ptr 0x20000000 \<noteq> word_ptr 0x60001000
   \<and> memory_copy reset_machine (word_ptr 0x20000000) (word_ptr 0x60001000) (word_ptr 0x20000000)
       = reset_machine
   \<and> memory_clear reset_machine (word_ptr 0x20000000) (word_ptr 0x20000000) = reset_machine"
proof -
  have ne: "word_ptr 0x20000000 \<noteq> word_ptr 0x60001000" by (simp add: word_ptr_def)
  with empty_range_no_write[of "word_ptr 0x20000000" "word_ptr 0x60001000" reset_machine]
  show ?thesis by blast
qed

text \<open>
  Claim C10. \<open>memory_copy\<close> and \<open>memory_clear\<close> are total functions (their loops are
  defined with a termination proof that has no precondition), they make at most
  \<open>2 * words dst dstEnd\<close> and exactly \<open>words dst dstEnd\<close> memory accesses, and every word
  outside \<open>[dst, dstEnd)\<close> is left unchanged. An inverted range \<open>dstEnd < dst\<close> is empty:
  both return the state they were given.
\<close>

theorem primitives_frame:
  "(\<forall>a. \<not> (dst \<le> a \<and> a < dstEnd) \<longrightarrow>
        mem (memory_copy s dst src dstEnd) a = mem s a
      \<and> mem (memory_clear s dst dstEnd) a = mem s a)
   \<and> (dstEnd < dst \<longrightarrow> memory_copy s dst src dstEnd = s \<and> memory_clear s dst dstEnd = s)
   \<and> length (trace (memory_copy s dst src dstEnd)) \<le> length (trace s) + 2 * words dst dstEnd
   \<and> length (trace (memory_clear s dst dstEnd)) = length (trace s) + words dst dstEnd"
proof -
  have "dstEnd < dst \<Longrightarrow> \<not> dst < dstEnd" by simp
  then have inv: "dstEnd < dst \<longrightarrow> memory_copy s dst src dstEnd = s \<and> memory_clear s dst dstEnd = s"
    by (simp add: memory_copy_def memory_copy_loop_empty memory_clear_empty)
  obtain es where "trace (memory_copy s dst src dstEnd) = trace s @ es"
      "length es = (if dst = src then 0 else 2 * words dst dstEnd)"
    using memory_copy_trace[of s dst src dstEnd] by blast
  then have len: "length (trace (memory_copy s dst src dstEnd)) \<le> length (trace s) + 2 * words dst dstEnd"
    by (simp split: if_splits)
  show ?thesis using inv len
    by (simp add: memory_copy_frame memory_clear_frame memory_clear_trace)
qed

theorem primitives_frame_witness:
  "word_ptr 0x20000010 < word_ptr 0x20000020
   \<and> memory_copy reset_machine (word_ptr 0x20000020) (word_ptr 0x60001000) (word_ptr 0x20000010)
       = reset_machine
   \<and> memory_clear reset_machine (word_ptr 0x20000020) (word_ptr 0x20000010) = reset_machine
   \<and> \<not> (word_ptr 0x20000010 \<le> word_ptr 0x20000020 \<and> word_ptr 0x20000020 < word_ptr 0x20000018)
   \<and> mem (memory_copy reset_machine (word_ptr 0x20000010) (word_ptr 0x60001000) (word_ptr 0x20000018))
        (word_ptr 0x20000020) = mem reset_machine (word_ptr 0x20000020)
   \<and> mem (memory_clear reset_machine (word_ptr 0x20000010) (word_ptr 0x20000018))
        (word_ptr 0x20000020) = mem reset_machine (word_ptr 0x20000020)"
proof -
  have inv: "word_ptr 0x20000010 < word_ptr 0x20000020" by (simp add: word_ptr_def)
  have out: "\<not> (word_ptr 0x20000010 \<le> word_ptr 0x20000020 \<and> word_ptr 0x20000020 < word_ptr 0x20000018)"
    by (simp add: word_ptr_def)
  from primitives_frame[of "word_ptr 0x20000020" "word_ptr 0x20000010" reset_machine "word_ptr 0x60001000"] inv
  have 1: "memory_copy reset_machine (word_ptr 0x20000020) (word_ptr 0x60001000) (word_ptr 0x20000010)
       = reset_machine
   \<and> memory_clear reset_machine (word_ptr 0x20000020) (word_ptr 0x20000010) = reset_machine"
    by blast
  from primitives_frame[of "word_ptr 0x20000010" "word_ptr 0x20000018" reset_machine "word_ptr 0x60001000"] out
  have 2: "mem (memory_copy reset_machine (word_ptr 0x20000010) (word_ptr 0x60001000) (word_ptr 0x20000018))
        (word_ptr 0x20000020) = mem reset_machine (word_ptr 0x20000020)
   \<and> mem (memory_clear reset_machine (word_ptr 0x20000010) (word_ptr 0x20000018))
        (word_ptr 0x20000020) = mem reset_machine (word_ptr 0x20000020)"
    by blast
  from inv out 1 2 show ?thesis by blast
qed

section \<open>Claims about the boot descriptor tables\<close>

text \<open>
  Claim C8. \<open>ImageVectorTable\<close> has eight words; word 0 is the header constant
  \<open>0x402000D1\<close>, word 1 the address of \<open>startup\<close>, word 4 the address of \<open>BootData\<close> and
  word 5 the address of \<open>ImageVectorTable\<close> itself.
\<close>

theorem ImageVectorTable_fields:
  "length (ImageVectorTable L) = 8
   \<and> ImageVectorTable L ! 0 = 0x402000D1
   \<and> ImageVectorTable L ! 1 = startup_addr L
   \<and> ImageVectorTable L ! 4 = BootData_addr L
   \<and> ImageVectorTable L ! 5 = ImageVectorTable_addr L"
  by (simp add: ImageVectorTable_def)

text \<open>
  Claim C9. \<open>FlexSPI_NOR_Config\<close> has 128 words, that is 512 bytes; the word at byte
  offset \<open>0x00\<close> is the tag \<open>0x42464346\<close>, the word at \<open>0x1C0\<close> is 256 and the word at
  \<open>0x1C4\<close> is 4096.
\<close>

theorem FlexSPI_NOR_Config_layout:
  "length FlexSPI_NOR_Config = 128
   \<and> 4 * length FlexSPI_NOR_Config = 512
   \<and> word_at_offset FlexSPI_NOR_Config 0x00 = 0x42464346
   \<and> word_at_offset FlexSPI_NOR_Config 0x1C0 = 256
   \<and> word_at_offset FlexSPI_NOR_Config 0x1C4 = 4096"
  by (simp add: FlexSPI_NOR_Config_def word_at_offset_def)

section \<open>Properties of the startup routine\<close>

lemma fits_words: "fits dst (words dst dstEnd)"
proof -
  have "unat dstEnd < 2 ^ 30" using unsigned_less[of dstEnd] by simp
  moreover have "unat dst < 2 ^ 30" using unsigned_less[of dst] by simp
  ultimately show ?thesis by (simp add: fits_def words_def)
qed

lemma fits_one: "fits p (Suc 0)"
proof -
  have "unat p < 2 ^ 30" using unsigned_less[of p] by simp
  then show ?thesis by (simp add: fits_def)
qed

lemma unat_offset: "fits a n \<Longrightarrow> i < n \<Longrightarrow> unat (a + of_nat i) = unat a + i"
  by (simp add: fits_def unat_word_ariths unat_of_nat)

lemma apart_ne:
  assumes "apart a n b k" "fits a n" "fits b k" "i < n" "j < k"
  shows "a + of_nat i \<noteq> b + of_nat j"
proof
  assume "a + of_nat i = b + of_nat j"
  then have "unat (a + of_nat i) = unat (b + of_nat j)" by simp
  then have "unat a + i = unat b + j"
    using assms by (simp add: unat_offset)
  with assms(1,4,5) show False by (auto simp: apart_def)
qed

lemma apart_one_ne:
  assumes "apart p (Suc 0) b k" "fits b k" "j < k"
  shows "b + of_nat j \<noteq> p"
  using apart_ne[OF assms(1) fits_one assms(2) _ assms(3), of 0] by auto

lemma apart_not_in_range:
  assumes "apart a n dst (words dst dstEnd)" "fits a n" "i < n"
  shows "\<not> (dst \<le> a + of_nat i \<and> a + of_nat i < dstEnd)"
proof
  assume "dst \<le> a + of_nat i \<and> a + of_nat i < dstEnd"
  then obtain j where "j < words dst dstEnd" "a + of_nat i = dst + of_nat j"
    using in_range_iff[of dst "a + of_nat i" dstEnd] by blast
  with apart_ne[OF assms(1,2) fits_words assms(3)] show False by blast
qed

lemma apart_sym: "apart a n b k \<Longrightarrow> apart b k a n"
  by (auto simp: apart_def)

lemma before_memory_trace:
  "trace (before_memory L s) =
     trace s
     @ [MemWrite (word_ptr 0x400AC044) (flexram_bank_config L),
        MemWrite (word_ptr 0x400AC040) 7,
        MemWrite (word_ptr 0x400AC038) 0x00AA0000]
     @ [MemRead (word_ptr 0xE000ED88),
        MemWrite (word_ptr 0xE000ED88) (mem s (word_ptr 0xE000ED88) OR 0x0FF00000)]
     @ [ISB, DSB]
     @ [MovSP (estack L)]"
  by (simp add: before_memory_def move_stack_pointer_def barriers_def enable_fpu_def
      flexram_bank_configuration_def mmio32_read_def mmio32_write_def load_def store_def
      isb_def dsb_def mov_sp_def word_ptr_def)

lemma before_memory_regs:
  "sp (before_memory L s) = estack L \<and> lr (before_memory L s) = lr s \<and> pc (before_memory L s) = pc s"
  by (simp add: before_memory_def move_stack_pointer_def barriers_def enable_fpu_def
      flexram_bank_configuration_def mmio32_read_def mmio32_write_def load_def store_def
      isb_def dsb_def mov_sp_def)

lemma before_memory_mem:
  "a \<notin> set early_registers \<Longrightarrow> mem (before_memory L s) a = mem s a"
  by (simp add: before_memory_def move_stack_pointer_def barriers_def enable_fpu_def
      flexram_bank_configuration_def mmio32_read_def mmio32_write_def load_def store_def
      isb_def dsb_def mov_sp_def early_registers_def)

lemma startup_unfold:
  "startup L s =
     branch_to_main L (setup_nvic L (assign_stack_pointer L (initialize_memory L (before_memory L s))))"
  by (simp add: startup_def before_memory_def)

lemma tail_mem:
  "mem (branch_to_main L (setup_nvic L (assign_stack_pointer L s'))) =
     (mem s')(irq_table L := estack L, word_ptr 0xE000ED08 := addr_of (irq_table L))"
  by (simp add: branch_to_main_def setup_nvic_def assign_stack_pointer_def bl_def
      mmio32_write_def store_def Let_def)

lemma tail_regs:
  "sp (branch_to_main L (setup_nvic L (assign_stack_pointer L s'))) = sp s'
   \<and> lr (branch_to_main L (setup_nvic L (assign_stack_pointer L s'))) = bl_return L
   \<and> pc (branch_to_main L (setup_nvic L (assign_stack_pointer L s'))) = main L"
  by (simp add: branch_to_main_def setup_nvic_def assign_stack_pointer_def bl_def
      mmio32_write_def store_def Let_def)

lemma tail_trace:
  "trace (branch_to_main L (setup_nvic L (assign_stack_pointer L s'))) =
     trace s'
     @ [MemWrite (irq_table L) (estack L)]
     @ [MemWrite (word_ptr 0xE000ED08) (addr_of (irq_table L))]
     @ [BranchLink (main L) (bl_return L)]"
  by (simp add: branch_to_main_def setup_nvic_def assign_stack_pointer_def bl_def
      mmio32_write_def store_def Let_def)

lemma initialize_memory_regs:
  "sp (initialize_memory L s) = sp s \<and> lr (initialize_memory L s) = lr s
   \<and> pc (initialize_memory L s) = pc s"
  by (simp add: initialize_memory_def memory_copy_regs memory_clear_regs)

lemma events_since_append: "trace s' = trace s @ es \<Longrightarrow> events_since s s' = es"
  by (simp add: events_since_def)

lemma initialize_memory_trace:
  "trace (initialize_memory L s) =
     trace s
     @ events_since s (memory_copy s (stext L) (stextload L) (etext L))
     @ events_since (memory_copy s (stext L) (stextload L) (etext L))
         (memory_copy (memory_copy s (stext L) (stextload L) (etext L))
            (sdata L) (sdataload L) (edata L))
     @ events_since (memory_copy (memory_copy s (stext L) (stextload L) (etext L))
            (sdata L) (sdataload L) (edata L))
         (initialize_memory L s)
   \<and> list_all is_access (events_since s (initialize_memory L s))"
proof -
  let ?a = "memory_copy s (stext L) (stextload L) (etext L)"
  let ?b = "memory_copy ?a (sdata L) (sdataload L) (edata L)"
  let ?c = "memory_clear ?b (sbss L) (ebss L)"
  obtain e1 where e1: "trace ?a = trace s @ e1" "list_all is_access e1"
    using memory_copy_trace[of s "stext L" "stextload L" "etext L"] by blast
  obtain e2 where e2: "trace ?b = trace ?a @ e2" "list_all is_access e2"
    using memory_copy_trace[of ?a "sdata L" "sdataload L" "edata L"] by blast
  define e3 where "e3 = map (\<lambda>i. MemWrite (sbss L + of_nat i) 0) [0 ..< words (sbss L) (ebss L)]"
  have e3: "trace ?c = trace ?b @ e3" "list_all is_access e3"
    by (simp_all add: memory_clear_trace e3_def list_all_iff is_access_def)
  have c: "initialize_memory L s = ?c" by (simp add: initialize_memory_def)
  have all: "trace ?c = trace s @ (e1 @ e2 @ e3)" using e1 e2 e3 by simp
  show ?thesis
    unfolding c
    using events_since_append[OF e1(1)] events_since_append[OF e2(1)]
      events_since_append[OF e3(1)] events_since_append[OF all] all e1 e2 e3
    by simp
qed

lemma apart_reg_ne:
  assumes "apart p 1 b k" "fits b k" "j < k"
  shows "b + of_nat j \<noteq> p"
  using apart_one_ne[of p b k j] assms by simp

lemma not_early_register:
  assumes "list_all (\<lambda>r. apart r 1 b k) early_registers" "fits b k" "j < k"
  shows "b + of_nat j \<notin> set early_registers"
  using assms apart_reg_ne[of _ b k j] by (auto simp: list_all_iff)

lemma copied_region:
  assumes sep: "dst = src \<or> apart dst (words dst dstEnd) src (words dst dstEnd)"
    and fit: "fits src (words dst dstEnd)"
    and i: "i < words dst dstEnd"
  shows "mem (memory_copy s dst src dstEnd) (dst + of_nat i) = mem s (src + of_nat i)"
proof (cases "dst = src")
  case True
  then show ?thesis by (simp add: memory_copy_def)
next
  case False
  with sep have ap: "apart dst (words dst dstEnd) src (words dst dstEnd)" by simp
  have "\<forall>i j. i < j \<and> j < words dst dstEnd \<longrightarrow> src + of_nat j \<noteq> dst + of_nat i"
  proof (intro allI impI)
    fix i j assume "i < j \<and> j < words dst dstEnd"
    then have "i < words dst dstEnd" "j < words dst dstEnd" by auto
    from apart_ne[OF ap fits_words fit this] show "src + of_nat j \<noteq> dst + of_nat i" by simp
  qed
  then show ?thesis using i by (rule memory_copy_content)
qed

lemma startup_image:
  assumes ok: "layout_ok L"
  shows "(\<forall>i < words (stext L) (etext L).
            mem (startup L s) (stext L + of_nat i) = mem s (stextload L + of_nat i))
       \<and> (\<forall>i < words (sdata L) (edata L).
            mem (startup L s) (sdata L + of_nat i) = mem s (sdataload L + of_nat i))
       \<and> (\<forall>a. sbss L \<le> a \<and> a < ebss L \<longrightarrow> mem (startup L s) a = 0)
       \<and> sp (startup L s) = estack L
       \<and> mem (startup L s) (word_ptr 0xE000ED08) = addr_of (irq_table L)"
proof -
  define nT where "nT = words (stext L) (etext L)"
  define nD where "nD = words (sdata L) (edata L)"
  define nB where "nB = words (sbss L) (ebss L)"
  define s4 where "s4 = before_memory L s"
  define a where "a = memory_copy s4 (stext L) (stextload L) (etext L)"
  define b where "b = memory_copy a (sdata L) (sdataload L) (edata L)"
  define c where "c = memory_clear b (sbss L) (ebss L)"
  note n = nT_def nD_def nB_def
  from ok have TD: "apart (stext L) nT (sdata L) nD"
    and TB: "apart (stext L) nT (sbss L) nB"
    and DB: "apart (sdata L) nD (sbss L) nB"
    and IT: "apart (irq_table L) 1 (stext L) nT"
    and ID: "apart (irq_table L) 1 (sdata L) nD"
    and IB: "apart (irq_table L) 1 (sbss L) nB"
    and VT: "apart (word_ptr 0xE000ED08) 1 (stext L) nT"
    and VD: "apart (word_ptr 0xE000ED08) 1 (sdata L) nD"
    and VB: "apart (word_ptr 0xE000ED08) 1 (sbss L) nB"
    and fTL: "fits (stextload L) nT"
    and fDL: "fits (sdataload L) nD"
    and TTL: "stext L = stextload L \<or> apart (stext L) nT (stextload L) nT"
    and DDL: "sdata L = sdataload L \<or> apart (sdata L) nD (sdataload L) nD"
    and TDL: "apart (stext L) nT (sdataload L) nD"
    and RTL: "list_all (\<lambda>r. apart r 1 (stextload L) nT) early_registers"
    and RDL: "list_all (\<lambda>r. apart r 1 (sdataload L) nD) early_registers"
    by (simp_all add: layout_ok_def Let_def n list_all_iff)
  have fT: "fits (stext L) nT" and fD: "fits (sdata L) nD" and fB: "fits (sbss L) nB"
    by (simp_all add: n fits_words)
  have fin: "mem (startup L s) = (mem c)(irq_table L := estack L,
                 word_ptr 0xE000ED08 := addr_of (irq_table L))"
    by (simp add: startup_unfold tail_mem initialize_memory_def c_def b_def a_def s4_def)
  have code_part: "mem (startup L s) (stext L + of_nat i) = mem s (stextload L + of_nat i)"
    if i: "i < nT" for i
  proof -
    let ?x = "stext L + of_nat i"
    have "?x \<noteq> irq_table L" "?x \<noteq> word_ptr 0xE000ED08"
      using apart_reg_ne[OF IT fT i] apart_reg_ne[OF VT fT i] by simp_all
    then have "mem (startup L s) ?x = mem c ?x" by (simp add: fin)
    also have "\<dots> = mem b ?x"
      unfolding c_def using apart_not_in_range[OF TB[unfolded nB_def] fT i]
      by (rule memory_clear_frame)
    also have "\<dots> = mem a ?x"
      unfolding b_def using apart_not_in_range[OF TD[unfolded nD_def] fT i]
      by (rule memory_copy_frame)
    also have "\<dots> = mem s4 (stextload L + of_nat i)"
      unfolding a_def using TTL fTL i unfolding nT_def by (rule copied_region)
    also have "\<dots> = mem s (stextload L + of_nat i)"
      unfolding s4_def using not_early_register[OF RTL fTL i] by (rule before_memory_mem)
    finally show ?thesis .
  qed
  have data_part: "mem (startup L s) (sdata L + of_nat i) = mem s (sdataload L + of_nat i)"
    if i: "i < nD" for i
  proof -
    let ?x = "sdata L + of_nat i"
    let ?y = "sdataload L + of_nat i"
    have "?x \<noteq> irq_table L" "?x \<noteq> word_ptr 0xE000ED08"
      using apart_reg_ne[OF ID fD i] apart_reg_ne[OF VD fD i] by simp_all
    then have "mem (startup L s) ?x = mem c ?x" by (simp add: fin)
    also have "\<dots> = mem b ?x"
      unfolding c_def using apart_not_in_range[OF DB[unfolded nB_def] fD i]
      by (rule memory_clear_frame)
    also have "\<dots> = mem a ?y"
      unfolding b_def using DDL fDL i unfolding nD_def by (rule copied_region)
    also have "\<dots> = mem s4 ?y"
      unfolding a_def
      using apart_not_in_range[OF apart_sym[OF TDL[unfolded nT_def]] fDL i]
      by (rule memory_copy_frame)
    also have "\<dots> = mem s ?y"
      unfolding s4_def using not_early_register[OF RDL fDL i] by (rule before_memory_mem)
    finally show ?thesis .
  qed
  have bss_part: "mem (startup L s) x = 0" if x: "sbss L \<le> x \<and> x < ebss L" for x
  proof -
    from x obtain j where j: "j < nB" "x = sbss L + of_nat j"
      using in_range_iff[of "sbss L" x "ebss L"] unfolding nB_def by blast
    have "x \<noteq> irq_table L" "x \<noteq> word_ptr 0xE000ED08"
      using apart_reg_ne[OF IB fB j(1)] apart_reg_ne[OF VB fB j(1)] j(2) by simp_all
    then have "mem (startup L s) x = mem c x" by (simp add: fin)
    also have "\<dots> = 0"
      unfolding c_def using x by (simp add: memory_clear_zero)
    finally show ?thesis .
  qed
  have sp: "sp (startup L s) = estack L"
    by (simp add: startup_unfold tail_regs initialize_memory_regs before_memory_regs)
  have vt: "mem (startup L s) (word_ptr 0xE000ED08) = addr_of (irq_table L)"
    by (simp add: fin)
  from code_part data_part bss_part sp vt show ?thesis unfolding n by blast
qed

lemmas startup_defs =
  startup_def flexram_bank_configuration_def enable_fpu_def barriers_def
  move_stack_pointer_def initialize_memory_def assign_stack_pointer_def setup_nvic_def
  branch_to_main_def mmio32_read_def mmio32_write_def load_def store_def isb_def dsb_def
  mov_sp_def bl_def memory_copy_def memory_copy_loop.simps memory_clear.simps Let_def

section \<open>Claims about the startup routine\<close>

text \<open>
  With the text loaded one word below its execution address, the load address differs
  from the execution address, yet the second word of the execution region is not the
  second word of the load image: the forward copy has overwritten it.
\<close>

theorem startup_overlap_counterexample:
  "stextload overlapping_layout \<noteq> stext overlapping_layout
   \<and> sdataload overlapping_layout \<noteq> sdata overlapping_layout
   \<and> stext overlapping_layout \<le> stext overlapping_layout + 1
   \<and> stext overlapping_layout + 1 < etext overlapping_layout
   \<and> mem (startup overlapping_layout reset_machine) (stext overlapping_layout + 1)
       \<noteq> mem reset_machine (stextload overlapping_layout + 1)"
  by (simp add: overlapping_layout_def teensy_layout_def reset_machine_def word_ptr_def
      addr_of_def startup_defs)

text \<open>
  Claim C1, as amended. Under a layout that satisfies \<open>layout_ok\<close>, running \<open>startup\<close>
  leaves every word of \<open>[_stext, _etext)\<close> and of \<open>[_sdata, _edata)\<close> equal to the word
  at the same offset of its load image as it was at entry, every word of
  \<open>[_sbss, _ebss)\<close> zero, the stack pointer equal to \<open>&_estack\<close> and the register at
  \<open>0xE000ED08\<close> equal to the address of \<open>irq_table\<close>.
\<close>

theorem startup_materialises_image:
  assumes "layout_ok L"
  shows "(\<forall>i < words (stext L) (etext L).
            mem (startup L s) (stext L + of_nat i) = mem s (stextload L + of_nat i))
       \<and> (\<forall>i < words (sdata L) (edata L).
            mem (startup L s) (sdata L + of_nat i) = mem s (sdataload L + of_nat i))
       \<and> (\<forall>a. sbss L \<le> a \<and> a < ebss L \<longrightarrow> mem (startup L s) a = 0)
       \<and> sp (startup L s) = estack L
       \<and> mem (startup L s) (word_ptr 0xE000ED08) = addr_of (irq_table L)"
  using assms by (rule startup_image)

theorem startup_materialises_image_witness:
  "layout_ok teensy_layout
   \<and> words (stext teensy_layout) (etext teensy_layout) = 2
   \<and> words (sdata teensy_layout) (edata teensy_layout) = 2
   \<and> mem (startup teensy_layout reset_machine) (word_ptr 0x00000004)
       = mem reset_machine (word_ptr 0x60002004)
   \<and> mem (startup teensy_layout reset_machine) (word_ptr 0x20000804)
       = mem reset_machine (word_ptr 0x6000200C)
   \<and> mem reset_machine (word_ptr 0x2000080C) \<noteq> 0
   \<and> mem (startup teensy_layout reset_machine) (word_ptr 0x2000080C) = 0
   \<and> sp (startup teensy_layout reset_machine) = 0x20078000
   \<and> mem (startup teensy_layout reset_machine) (word_ptr 0xE000ED08) = 0x20000000"
proof -
  have ok: "layout_ok teensy_layout"
    by (simp add: layout_ok_def teensy_layout_def words_def apart_def fits_def
        early_registers_def word_ptr_def)
  have nT: "words (stext teensy_layout) (etext teensy_layout) = 2"
    and nD: "words (sdata teensy_layout) (edata teensy_layout) = 2"
    by (simp_all add: teensy_layout_def words_def word_ptr_def)
  note th = startup_materialises_image[OF ok, of reset_machine]
  from th nT have "mem (startup teensy_layout reset_machine) (stext teensy_layout + of_nat 1)
      = mem reset_machine (stextload teensy_layout + of_nat 1)"
    by (metis one_less_numeral_iff semiring_norm(76))
  then have 1: "mem (startup teensy_layout reset_machine) (word_ptr 0x00000004)
       = mem reset_machine (word_ptr 0x60002004)"
    by (simp add: teensy_layout_def word_ptr_def)
  from th nD have "mem (startup teensy_layout reset_machine) (sdata teensy_layout + of_nat 1)
      = mem reset_machine (sdataload teensy_layout + of_nat 1)"
    by (metis one_less_numeral_iff semiring_norm(76))
  then have 2: "mem (startup teensy_layout reset_machine) (word_ptr 0x20000804)
       = mem reset_machine (word_ptr 0x6000200C)"
    by (simp add: teensy_layout_def word_ptr_def)
  have "sbss teensy_layout \<le> word_ptr 0x2000080C \<and> word_ptr 0x2000080C < ebss teensy_layout"
    by (simp add: teensy_layout_def word_ptr_def)
  with th have 3: "mem (startup teensy_layout reset_machine) (word_ptr 0x2000080C) = 0"
    by blast
  have 4: "mem reset_machine (word_ptr 0x2000080C) \<noteq> 0"
    by (simp add: reset_machine_def word_ptr_def)
  from th have 5: "sp (startup teensy_layout reset_machine) = 0x20078000"
    and 6: "mem (startup teensy_layout reset_machine) (word_ptr 0xE000ED08) = 0x20000000"
    by (simp_all add: teensy_layout_def addr_of_def word_ptr_def)
  from ok nT nD 1 2 3 4 5 6 show ?thesis by blast
qed

text \<open>
  Claim C2. The events of \<open>startup\<close> are, in this order: the three writes to
  \<open>0x400AC044\<close>, \<open>0x400AC040\<close> and \<open>0x400AC038\<close>; the read and the write of
  \<open>0xE000ED88\<close>; \<open>isb\<close> and \<open>dsb\<close>; the move of \<open>&_estack\<close> to the stack pointer; the
  accesses of \<open>memory_copy\<close> for the text, of \<open>memory_copy\<close> for the data and of
  \<open>memory_clear\<close> for the bss, which are memory accesses only; the write of \<open>&_estack\<close>
  to \<open>irq_table[0]\<close>; the write of the address of \<open>irq_table\<close> to \<open>0xE000ED08\<close>; the
  branch to \<open>main\<close>.
\<close>

theorem startup_order:
  "let s4 = move_stack_pointer L (barriers (enable_fpu (flexram_bank_configuration L s)));
       s5a = memory_copy s4 (stext L) (stextload L) (etext L);
       s5b = memory_copy s5a (sdata L) (sdataload L) (edata L);
       s5c = memory_clear s5b (sbss L) (ebss L)
   in trace (startup L s) =
        trace s
        @ [MemWrite (word_ptr 0x400AC044) (flexram_bank_config L),
           MemWrite (word_ptr 0x400AC040) 0x00000007,
           MemWrite (word_ptr 0x400AC038) 0x00AA0000]
        @ [MemRead (word_ptr 0xE000ED88),
           MemWrite (word_ptr 0xE000ED88) (mem s (word_ptr 0xE000ED88) OR 0x0FF00000)]
        @ [ISB, DSB]
        @ [MovSP (estack L)]
        @ (events_since s4 s5a @ events_since s5a s5b @ events_since s5b s5c)
        @ [MemWrite (irq_table L) (estack L)]
        @ [MemWrite (word_ptr 0xE000ED08) (addr_of (irq_table L))]
        @ [BranchLink (main L) (bl_return L)]
      \<and> list_all is_access (events_since s4 s5a @ events_since s5a s5b @ events_since s5b s5c)
      \<and> trace s5a = trace s4 @ events_since s4 s5a
      \<and> trace s5b = trace s5a @ events_since s5a s5b
      \<and> trace s5c = trace s5b @ events_since s5b s5c"
proof -
  define s4 where "s4 = before_memory L s"
  define a where "a = memory_copy s4 (stext L) (stextload L) (etext L)"
  define b where "b = memory_copy a (sdata L) (sdataload L) (edata L)"
  define c where "c = memory_clear b (sbss L) (ebss L)"
  obtain e1 where e1: "trace a = trace s4 @ e1" "list_all is_access e1"
    unfolding a_def using memory_copy_trace[of s4 "stext L" "stextload L" "etext L"] by blast
  obtain e2 where e2: "trace b = trace a @ e2" "list_all is_access e2"
    unfolding b_def using memory_copy_trace[of a "sdata L" "sdataload L" "edata L"] by blast
  define e3 where "e3 = map (\<lambda>i. MemWrite (sbss L + of_nat i) 0) [0 ..< words (sbss L) (ebss L)]"
  have e3: "trace c = trace b @ e3" "list_all is_access e3"
    by (simp_all add: c_def memory_clear_trace e3_def list_all_iff is_access_def)
  have ev: "events_since s4 a = e1" "events_since a b = e2" "events_since b c = e3"
    using e1(1) e2(1) e3(1) by (simp_all add: events_since_def)
  have "startup L s = branch_to_main L (setup_nvic L (assign_stack_pointer L c))"
    by (simp add: startup_unfold initialize_memory_def c_def b_def a_def s4_def)
  then have "trace (startup L s) = trace s4 @ (e1 @ e2 @ e3)
        @ [MemWrite (irq_table L) (estack L)]
        @ [MemWrite (word_ptr 0xE000ED08) (addr_of (irq_table L))]
        @ [BranchLink (main L) (bl_return L)]"
    using e1(1) e2(1) e3(1) by (simp add: tail_trace)
  moreover have "list_all is_access (e1 @ e2 @ e3)"
    using e1(2) e2(2) e3(2) by simp
  ultimately have "trace (startup L s) =
        trace s
        @ [MemWrite (word_ptr 0x400AC044) (flexram_bank_config L),
           MemWrite (word_ptr 0x400AC040) 0x00000007,
           MemWrite (word_ptr 0x400AC038) 0x00AA0000]
        @ [MemRead (word_ptr 0xE000ED88),
           MemWrite (word_ptr 0xE000ED88) (mem s (word_ptr 0xE000ED88) OR 0x0FF00000)]
        @ [ISB, DSB]
        @ [MovSP (estack L)]
        @ (events_since s4 a @ events_since a b @ events_since b c)
        @ [MemWrite (irq_table L) (estack L)]
        @ [MemWrite (word_ptr 0xE000ED08) (addr_of (irq_table L))]
        @ [BranchLink (main L) (bl_return L)]
      \<and> list_all is_access (events_since s4 a @ events_since a b @ events_since b c)
      \<and> trace a = trace s4 @ events_since s4 a
      \<and> trace b = trace a @ events_since a b
      \<and> trace c = trace b @ events_since b c"
    unfolding ev using e1(1) e2(1) e3(1) by (simp add: s4_def before_memory_trace)
  then show ?thesis
    unfolding Let_def c_def b_def a_def s4_def before_memory_def .
qed

text \<open>
  The transfer to \<open>main\<close> is \<open>bl main\<close>, branch with link: it does record a return
  address, in the link register.
\<close>

theorem bl_records_return_address_counterexample:
  "lr (branch_to_main teensy_layout reset_machine) = bl_return teensy_layout
   \<and> lr (branch_to_main teensy_layout reset_machine) \<noteq> lr reset_machine
   \<and> lr (startup teensy_layout reset_machine) = bl_return teensy_layout
   \<and> lr (startup teensy_layout reset_machine) \<noteq> lr reset_machine"
  by (simp add: teensy_layout_def reset_machine_def word_ptr_def addr_of_def startup_defs)

text \<open>
  Claim C7, as amended. The last action of \<open>startup\<close> is the transfer of control to
  \<open>main\<close>, after which nothing of its body runs: the program counter is \<open>main\<close>. The
  transfer is a branch with link: it pushes nothing, the stack pointer and memory are as
  before it, and it records the return address, that of the instruction after \<open>bl main\<close>,
  in the link register.
\<close>

theorem startup_ends_with_branch_and_link:
  "last (trace (startup L s)) = BranchLink (main L) (bl_return L)
   \<and> pc (startup L s) = main L
   \<and> lr (startup L s) = bl_return L
   \<and> sp (branch_to_main L s') = sp s'
   \<and> mem (branch_to_main L s') = mem s'"
  by (simp add: startup_unfold tail_trace tail_regs branch_to_main_def bl_def)

end
